theory Spec2Isabelle
  imports Complex_Main
begin

section \<open>Domain model\<close>

text \<open>
  The data layer of the application is \<^verbatim>\<open>src/lib/api.ts\<close>. It works on two module-level
  values imported from \<^verbatim>\<open>./mockData\<close>: the catalog \<^verbatim>\<open>mockListings\<close> and the single user
  \<^verbatim>\<open>mockUser\<close>. The records below carry the fields that \<^verbatim>\<open>api.ts\<close> and the booking
  dialog \<^verbatim>\<open>components/BookingModal.tsx\<close> read or write; the fields that only the pages
  display (addresses, images, host, amenities, review count, availability, the user's name
  and avatar) are left out. A JavaScript \<^verbatim>\<open>number\<close> that
  holds a price, a rating or a coordinate is a \<^typ>\<open>real\<close> (exact arithmetic, rounding of
  doubles is not modelled); a count or an index is an \<^typ>\<open>int\<close>.

  Every exported function first awaits a timer and then runs its body without a further
  suspension point, so each body is one atomic step on the store.
\<close>

datatype Category = Restaurant | Event | Cultural

datatype BookingStatus = Pending | Confirmed | Cancelled

record Location =
  lat :: real
  lng :: real

record Listing =
  Listing_id :: string
  category :: Category
  title :: string
  titleFr :: string
  description :: string
  descriptionFr :: string
  price :: real
  rating :: real
  location :: Location

text \<open>
  \<^verbatim>\<open>createBooking\<close> receives an \<^verbatim>\<open>Omit<Booking, "id" | "createdAt">\<close>: the
  fields of a booking that the caller chooses. A \<^verbatim>\<open>Booking\<close> is such a record together
  with the two fields the data layer adds.
\<close>

record BookingDraft =
  listingId :: string
  date :: string
  time :: string
  participants :: int
  status :: BookingStatus
  totalPrice :: real

record Booking = BookingDraft +
  Booking_id :: string
  createdAt :: string

text \<open>
  \<^verbatim>\<open>User["preferences"]\<close> is an object whose keys the data layer never inspects; it is kept
  as the ordered list of its properties.
\<close>

type_synonym Preferences = "(string \<times> string) list"

record User =
  wishlist :: "string list"
  bookings :: "Booking list"
  preferences :: Preferences

section \<open>Wishlist API\<close>

text \<open>
  \<^verbatim>\<open>if (!mockUser.wishlist.includes(listingId)) { mockUser.wishlist.push(listingId); }\<close>
\<close>

definition addToWishlist :: "string \<Rightarrow> User \<Rightarrow> User" where
  "addToWishlist lid mockUser =
     (if lid \<notin> set (wishlist mockUser)
      then mockUser\<lparr>wishlist := wishlist mockUser @ [lid]\<rparr>
      else mockUser)"

text \<open>
  \<^verbatim>\<open>mockUser.wishlist = mockUser.wishlist.filter((id) => id !== listingId);\<close>
\<close>

definition removeFromWishlist :: "string \<Rightarrow> User \<Rightarrow> User" where
  "removeFromWishlist lid mockUser =
     mockUser\<lparr>wishlist := filter (\<lambda>i. i \<noteq> lid) (wishlist mockUser)\<rparr>"

text \<open>A call of one of the two wishlist operations, and a run of such calls in order.\<close>

datatype WishlistCall = Add string | Remove string

fun wishlistCall :: "WishlistCall \<Rightarrow> User \<Rightarrow> User" where
  "wishlistCall (Add i) u = addToWishlist i u"
| "wishlistCall (Remove i) u = removeFromWishlist i u"

fun wishlistCalls :: "WishlistCall list \<Rightarrow> User \<Rightarrow> User" where
  "wishlistCalls [] u = u"
| "wishlistCalls (c # cs) u = wishlistCalls cs (wishlistCall c u)"

section \<open>User preferences\<close>

text \<open>
  \<^verbatim>\<open>mockUser.preferences = { ...mockUser.preferences, ...preferences };\<close>
  An object spread copies the properties of the first object in order and then assigns
  each property of the second: an existing key keeps its place and takes the new value, a
  new key goes to the end.
\<close>

fun assign :: "string \<Rightarrow> string \<Rightarrow> Preferences \<Rightarrow> Preferences" where
  "assign k v [] = [(k, v)]"
| "assign k v ((k', v') # ps) = (if k' = k then (k, v) # ps else (k', v') # assign k v ps)"

definition spread :: "Preferences \<Rightarrow> Preferences \<Rightarrow> Preferences" where
  "spread a b = fold (\<lambda>(k, v). assign k v) b a"

definition updateUserPreferences :: "Preferences \<Rightarrow> User \<Rightarrow> User" where
  "updateUserPreferences prefs mockUser =
     mockUser\<lparr>preferences := spread (preferences mockUser) prefs\<rparr>"

section \<open>Booking API\<close>

text \<open>
  The template literal \<^verbatim>\<open>`booking-${Date.now()}`\<close> prints the clock reading, a
  non-negative integer number of milliseconds, in decimal.
\<close>

definition digit :: "nat \<Rightarrow> char" where
  "digit d = ''0123456789'' ! d"

fun decimal :: "nat \<Rightarrow> string" where
  "decimal n = (if n < 10 then [digit n] else decimal (n div 10) @ [digit (n mod 10)])"

declare decimal.simps [simp del]

text \<open>
  \<^verbatim>\<open>
  const newBooking: Booking = {
    ...booking,
    id: `booking-${Date.now()}`,
    createdAt: new Date().toISOString(),
  };
  mockUser.bookings.push(newBooking);
  return newBooking;
  \<close>
  The two clock readings are arguments: \<open>nowMs\<close> is what \<^verbatim>\<open>Date.now()\<close> returns and
  \<open>nowIso\<close> what \<^verbatim>\<open>new Date().toISOString()\<close> returns. The result is the returned
  record and the user after the push.
\<close>

definition createBooking :: "nat \<Rightarrow> string \<Rightarrow> BookingDraft \<Rightarrow> User \<Rightarrow> Booking \<times> User" where
  "createBooking nowMs nowIso booking mockUser =
     (let newBooking =
        \<lparr>listingId = listingId booking, date = date booking, time = time booking,
         participants = participants booking, status = status booking,
         totalPrice = totalPrice booking,
         Booking_id = ''booking-'' @ decimal nowMs, createdAt = nowIso\<rparr>
      in (newBooking, mockUser\<lparr>bookings := bookings mockUser @ [newBooking]\<rparr>))"

definition getBookings :: "User \<Rightarrow> Booking list" where
  "getBookings mockUser = bookings mockUser"

text \<open>
  \<^verbatim>\<open>
  const booking = mockUser.bookings.find((b) => b.id === bookingId);
  if (booking) { booking.status = "cancelled"; }
  \<close>
  \<^verbatim>\<open>find\<close> returns the first element with the id; the assignment changes that element
  where it stands in the array, at the position after the elements that \<^verbatim>\<open>find\<close> skipped.
  Every element of the array is an object of its own (\<^verbatim>\<open>createBooking\<close> pushes a fresh
  object literal), so no other element changes with it.
\<close>

definition cancelBooking :: "string \<Rightarrow> User \<Rightarrow> User" where
  "cancelBooking bookingId mockUser =
     (case List.find (\<lambda>b. Booking_id b = bookingId) (bookings mockUser) of
        None \<Rightarrow> mockUser
      | Some booking \<Rightarrow>
          mockUser\<lparr>bookings :=
            (bookings mockUser)
              [length (takeWhile (\<lambda>b. Booking_id b \<noteq> bookingId) (bookings mockUser))
                 := booking\<lparr>status := Cancelled\<rparr>]\<rparr>)"

section \<open>The booking dialog\<close>

text \<open>
  \<^verbatim>\<open>components/BookingModal.tsx\<close> is the one caller of \<^verbatim>\<open>createBooking\<close>. Its form holds a
  date, a time slot and a participant count; the dialog moves through three steps.
\<close>

record BookingForm =
  form_date :: string
  form_time :: string
  form_participants :: int

datatype Step = Form | Payment | Success

text \<open>
  \<^verbatim>\<open>if (form.date && form.time && form.participants > 0) { setStep("payment"); }\<close>
  A string is truthy when it is not empty.
\<close>

definition handleFormSubmit :: "BookingForm \<Rightarrow> Step \<Rightarrow> Step" where
  "handleFormSubmit form step =
     (if form_date form \<noteq> [] \<and> form_time form \<noteq> [] \<and> form_participants form > 0
      then Payment else step)"

text \<open>
  \<^verbatim>\<open>
  const totalPrice = listing.price * form.participants;
  await createBooking({ listingId: listing.id, date: form.date, time: form.time,
    participants: form.participants, status: "confirmed", totalPrice });
  setStep("success");
  \<close>
  \<^verbatim>\<open>createBooking\<close> has no failing path, so the \<^verbatim>\<open>catch\<close> branch is never taken.
\<close>

definition handlePaymentSubmit ::
  "nat \<Rightarrow> string \<Rightarrow> Listing \<Rightarrow> BookingForm \<Rightarrow> User \<Rightarrow> Step \<times> User" where
  "handlePaymentSubmit nowMs nowIso listing form mockUser =
     (let totalPrice' = price listing * of_int (form_participants form);
          (newBooking, mockUser') =
            createBooking nowMs nowIso
              \<lparr>listingId = Listing_id listing, date = form_date form, time = form_time form,
               participants = form_participants form, status = Confirmed,
               totalPrice = totalPrice'\<rparr>
              mockUser
      in (Success, mockUser'))"

section \<open>Geospatial distance\<close>

text \<open>
  The two library functions whose result is not a number for some arguments, or that the
  real library does not provide. \<^verbatim>\<open>Math.sqrt\<close> of a negative number is \<^verbatim>\<open>NaN\<close>, written
  \<open>None\<close>. \<^verbatim>\<open>Math.atan2(y, x)\<close> is the angle of the point \<open>(x, y)\<close> in \<open>(-pi, pi]\<close>.
\<close>

definition Math_sqrt :: "real \<Rightarrow> real option" where
  "Math_sqrt x = (if x < 0 then None else Some (sqrt x))"

definition Math_atan2 :: "real \<Rightarrow> real \<Rightarrow> real" where
  "Math_atan2 y x =
     (if 0 < x then arctan (y / x)
      else if x < 0 then (if 0 \<le> y then arctan (y / x) + pi else arctan (y / x) - pi)
      else if 0 < y then pi / 2
      else if y < 0 then - (pi / 2)
      else 0)"

text \<open>\<^verbatim>\<open>return deg * (Math.PI / 180);\<close>\<close>

definition deg2rad :: "real \<Rightarrow> real" where
  "deg2rad deg = deg * (pi / 180)"

text \<open>
  \<^verbatim>\<open>
  const R = 6371; // Radius of the Earth in km
  const dLat = deg2rad(lat2 - lat1);
  const dLon = deg2rad(lon2 - lon1);
  const a =
    Math.sin(dLat / 2) * Math.sin(dLat / 2) +
    Math.cos(deg2rad(lat1)) * Math.cos(deg2rad(lat2)) *
      Math.sin(dLon / 2) * Math.sin(dLon / 2);
  const c = 2 * Math.atan2(Math.sqrt(a), Math.sqrt(1 - a));
  const d = R * c; // Distance in km
  return d;
  \<close>
  The body is written in two parts. \<open>haversine_a\<close> is the exact value of the local
  constant \<^verbatim>\<open>a\<close>. The program computes \<^verbatim>\<open>a\<close> in doubles, and the double can differ from
  the exact value in its last digits. \<open>calculateDistance_tail\<close> is the rest of the body
  as a function of the value that \<^verbatim>\<open>a\<close> holds: a \<^verbatim>\<open>NaN\<close> from either square root makes
  \<^verbatim>\<open>c\<close> and \<^verbatim>\<open>d\<close> \<^verbatim>\<open>NaN\<close>, the result \<open>None\<close>. \<open>calculateDistance\<close> puts the two
  together in exact arithmetic.
\<close>

definition haversine_a :: "real \<Rightarrow> real \<Rightarrow> real \<Rightarrow> real \<Rightarrow> real" where
  "haversine_a lat1 lon1 lat2 lon2 =
     (let dLat = deg2rad (lat2 - lat1);
          dLon = deg2rad (lon2 - lon1)
      in sin (dLat / 2) * sin (dLat / 2) +
         cos (deg2rad lat1) * cos (deg2rad lat2) * sin (dLon / 2) * sin (dLon / 2))"

definition calculateDistance_tail :: "real \<Rightarrow> real option" where
  "calculateDistance_tail a =
     (let R = 6371
      in case (Math_sqrt a, Math_sqrt (1 - a)) of
           (Some sa, Some sb) \<Rightarrow> (let c = 2 * Math_atan2 sa sb; d = R * c in Some d)
         | _ \<Rightarrow> None)"

definition calculateDistance :: "real \<Rightarrow> real \<Rightarrow> real \<Rightarrow> real \<Rightarrow> real option" where
  "calculateDistance lat1 lon1 lat2 lon2 =
     calculateDistance_tail (haversine_a lat1 lon1 lat2 lon2)"

section \<open>Listings API\<close>

text \<open>
  \<^verbatim>\<open>ListingFilters\<close>: every field is optional. The \<^verbatim>\<open>location\<close> filter is a point with a
  radius in km. \<^verbatim>\<open>getListings\<close> never reads \<^verbatim>\<open>date\<close>.
\<close>

record LocationFilter = Location +
  radius :: real

record ListingFilters =
  filter_category :: "Category option"
  minPrice :: "real option"
  maxPrice :: "real option"
  minRating :: "real option"
  filter_date :: "string option"
  filter_location :: "LocationFilter option"

record PaginatedResponse =
  data :: "Listing list"
  total :: int
  page :: int
  limit :: int
  hasMore :: bool

text \<open>
  A condition \<^verbatim>\<open>if (filters.minPrice)\<close> tests the value for truthiness: it holds when
  the field is present and its number is not zero. A category is one of three non-empty
  strings and a location is an object, so for these two presence alone decides.
\<close>

definition truthy :: "real option \<Rightarrow> bool" where
  "truthy v = (case v of None \<Rightarrow> False | Some x \<Rightarrow> x \<noteq> 0)"

text \<open>
  \<^verbatim>\<open>
  const distance = calculateDistance(filters.location!.lat, filters.location!.lng,
    listing.location.lat, listing.location.lng);
  return distance <= filters.location!.radius;
  \<close>
  A comparison with \<^verbatim>\<open>NaN\<close> is false.
\<close>

definition withinRadius :: "LocationFilter \<Rightarrow> Listing \<Rightarrow> bool" where
  "withinRadius loc listing =
     (case calculateDistance (lat loc) (lng loc) (lat (location listing)) (lng (location listing)) of
        None \<Rightarrow> False
      | Some distance \<Rightarrow> distance \<le> radius loc)"

text \<open>
  The filter block of \<^verbatim>\<open>getListings\<close>: \<^verbatim>\<open>let filteredListings = [...mockListings]\<close>
  followed by one guarded \<^verbatim>\<open>filteredListings = filteredListings.filter(...)\<close> per field,
  in the order category, minPrice, maxPrice, minRating, location, all inside
  \<^verbatim>\<open>if (filters)\<close>.
\<close>

definition applyFilters :: "Listing list \<Rightarrow> ListingFilters option \<Rightarrow> Listing list" where
  "applyFilters mockListings filters =
     (case filters of
        None \<Rightarrow> mockListings
      | Some f \<Rightarrow>
          (let l0 = mockListings;
               l1 = (case filter_category f of
                       Some c \<Rightarrow> filter (\<lambda>listing. category listing = c) l0
                     | None \<Rightarrow> l0);
               l2 = (if truthy (minPrice f)
                     then filter (\<lambda>listing. price listing \<ge> the (minPrice f)) l1 else l1);
               l3 = (if truthy (maxPrice f)
                     then filter (\<lambda>listing. price listing \<le> the (maxPrice f)) l2 else l2);
               l4 = (if truthy (minRating f)
                     then filter (\<lambda>listing. rating listing \<ge> the (minRating f)) l3 else l3);
               l5 = (case filter_location f of
                       Some loc \<Rightarrow> filter (withinRadius loc) l4
                     | None \<Rightarrow> l4)
           in l5))"

text \<open>
  \<^verbatim>\<open>Array.prototype.slice(start, end)\<close> on integer arguments: a negative index counts
  from the end of the array, both indices are clamped to the array, and an empty range gives
  the empty array.
\<close>

definition slice :: "'a list \<Rightarrow> int \<Rightarrow> int \<Rightarrow> 'a list" where
  "slice xs start fin =
     (let len = int (length xs);
          k = (if start < 0 then max (len + start) 0 else min start len);
          final = (if fin < 0 then max (len + fin) 0 else min fin len)
      in take (nat (final - k)) (drop (nat k) xs))"

text \<open>
  \<^verbatim>\<open>
  const startIndex = (page - 1) * limit;
  const endIndex = startIndex + limit;
  const paginatedData = filteredListings.slice(startIndex, endIndex);
  return { data: paginatedData, total: filteredListings.length, page, limit,
    hasMore: endIndex < filteredListings.length };
  \<close>
  Page and limit are integers; a caller that leaves them out gets the defaults 1 and 10.
\<close>

definition getListings ::
  "Listing list \<Rightarrow> ListingFilters option \<Rightarrow> int \<Rightarrow> int \<Rightarrow> PaginatedResponse" where
  "getListings mockListings filters page' limit' =
     (let filteredListings = applyFilters mockListings filters;
          startIndex = (page' - 1) * limit';
          endIndex = startIndex + limit';
          paginatedData = slice filteredListings startIndex endIndex
      in \<lparr>data = paginatedData, total = int (length filteredListings),
          page = page', limit = limit',
          hasMore = (endIndex < int (length filteredListings))\<rparr>)"

text \<open>
  \<^verbatim>\<open>String.prototype.includes\<close>: the argument occurs in the string as a contiguous run.
  \<open>startsWith\<close> compares it with the beginning of the string; \<open>String_includes\<close> tries every
  position from the left.
\<close>

fun startsWith :: "string \<Rightarrow> string \<Rightarrow> bool" where
  "startsWith s [] = True"
| "startsWith [] (c # cs) = False"
| "startsWith (x # xs) (c # cs) = (x = c \<and> startsWith xs cs)"

fun String_includes :: "string \<Rightarrow> string \<Rightarrow> bool" where
  "String_includes [] sub = startsWith [] sub"
| "String_includes (x # xs) sub = (startsWith (x # xs) sub \<or> String_includes xs sub)"

text \<open>
  \<^verbatim>\<open>
  const lowercaseQuery = query.toLowerCase();
  return mockListings.filter((listing) =>
    listing.title.toLowerCase().includes(lowercaseQuery) ||
    listing.titleFr.toLowerCase().includes(lowercaseQuery) ||
    listing.description.toLowerCase().includes(lowercaseQuery) ||
    listing.descriptionFr.toLowerCase().includes(lowercaseQuery));
  \<close>
  \<^verbatim>\<open>String.prototype.toLowerCase\<close> is the engine's Unicode case mapping; it is the
  parameter \<open>toLowerCase\<close>, so that every statement about the search holds for whatever
  mapping the engine applies. \<open>asciiLowerCase\<close> is that mapping on strings of ASCII
  characters, used where a search is evaluated.
\<close>

definition searchListings :: "(string \<Rightarrow> string) \<Rightarrow> Listing list \<Rightarrow> string \<Rightarrow> Listing list" where
  "searchListings toLowerCase mockListings query =
     (let lowercaseQuery = toLowerCase query
      in filter (\<lambda>listing.
           String_includes (toLowerCase (title listing)) lowercaseQuery \<or>
           String_includes (toLowerCase (titleFr listing)) lowercaseQuery \<or>
           String_includes (toLowerCase (description listing)) lowercaseQuery \<or>
           String_includes (toLowerCase (descriptionFr listing)) lowercaseQuery) mockListings)"

definition asciiLowerCase :: "string \<Rightarrow> string" where
  "asciiLowerCase s =
     map (\<lambda>c. case map_of (zip ''ABCDEFGHIJKLMNOPQRSTUVWXYZ'' ''abcdefghijklmnopqrstuvwxyz'') c of
                Some c' \<Rightarrow> c' | None \<Rightarrow> c) s"

section \<open>The store and its operations\<close>

text \<open>
  \<^verbatim>\<open>return mockListings.find((listing) => listing.id === id) || null;\<close>
\<close>

definition getListing :: "Listing list \<Rightarrow> string \<Rightarrow> Listing option" where
  "getListing mockListings i = List.find (\<lambda>listing. Listing_id listing = i) mockListings"

text \<open>
  The store is the pair of the two module-level values. \<open>ApiCall\<close> lists the exported
  functions of \<^verbatim>\<open>api.ts\<close> that write to it; the remaining ones (\<^verbatim>\<open>getListings\<close>,
  \<^verbatim>\<open>getListing\<close>, \<^verbatim>\<open>searchListings\<close>, \<^verbatim>\<open>getUser\<close>, \<^verbatim>\<open>getWishlist\<close>,
  \<^verbatim>\<open>getBookings\<close>) only read. No function of the data layer writes to the catalog;
  \<open>ChangeListingPrice\<close> is the hypothetical edit of a listing's price by a process
  outside the data layer, included so that the price freeze can be stated against it.
\<close>

record Store =
  listings :: "Listing list"
  user :: User

datatype ApiCall =
    UpdateUserPreferences Preferences
  | AddToWishlist string
  | RemoveFromWishlist string
  | CreateBooking nat string BookingDraft
  | CancelBooking string
  | ChangeListingPrice string real

fun apiCall :: "ApiCall \<Rightarrow> Store \<Rightarrow> Store" where
  "apiCall (UpdateUserPreferences prefs) s = s\<lparr>user := updateUserPreferences prefs (user s)\<rparr>"
| "apiCall (AddToWishlist i) s = s\<lparr>user := addToWishlist i (user s)\<rparr>"
| "apiCall (RemoveFromWishlist i) s = s\<lparr>user := removeFromWishlist i (user s)\<rparr>"
| "apiCall (CreateBooking nowMs nowIso booking) s =
     s\<lparr>user := snd (createBooking nowMs nowIso booking (user s))\<rparr>"
| "apiCall (CancelBooking i) s = s\<lparr>user := cancelBooking i (user s)\<rparr>"
| "apiCall (ChangeListingPrice i p) s =
     s\<lparr>listings := map (\<lambda>l. if Listing_id l = i then l\<lparr>price := p\<rparr> else l) (listings s)\<rparr>"

fun apiCalls :: "ApiCall list \<Rightarrow> Store \<Rightarrow> Store" where
  "apiCalls [] s = s"
| "apiCalls (c # cs) s = apiCalls cs (apiCall c s)"

section \<open>Auxiliary functions for the proofs\<close>

text \<open>
  \<open>cancelFirst\<close> is the effect of \<open>cancelBooking\<close> on the array written as a recursion
  (lemma \<open>cancelBooking_eq\<close> below); \<open>frozen\<close> projects the bookings to the two
  fields that no operation writes after creation.
\<close>

fun cancelFirst :: "string \<Rightarrow> Booking list \<Rightarrow> Booking list" where
  "cancelFirst i [] = []"
| "cancelFirst i (b # bs) =
     (if Booking_id b = i then b\<lparr>status := Cancelled\<rparr> # bs else b # cancelFirst i bs)"

definition frozen :: "Booking list \<Rightarrow> (string \<times> real) list" where
  "frozen bs = map (\<lambda>b. (Booking_id b, totalPrice b)) bs"

text \<open>
  \<open>passes\<close> is the conjunction of the guarded predicates of the filter block, the
  predicate that \<open>applyFilters\<close> filters the catalog by (lemma
  \<open>applyFilters_filter\<close> below).
\<close>

definition passes :: "ListingFilters option \<Rightarrow> Listing \<Rightarrow> bool" where
  "passes filters listing =
     (case filters of
        None \<Rightarrow> True
      | Some f \<Rightarrow>
          (case filter_category f of Some c \<Rightarrow> category listing = c | None \<Rightarrow> True)
          \<and> (if truthy (minPrice f) then price listing \<ge> the (minPrice f) else True)
          \<and> (if truthy (maxPrice f) then price listing \<le> the (maxPrice f) else True)
          \<and> (if truthy (minRating f) then rating listing \<ge> the (minRating f) else True)
          \<and> (case filter_location f of Some loc \<Rightarrow> withinRadius loc listing | None \<Rightarrow> True))"

section \<open>Example data\<close>

text \<open>Concrete values on which the theorems below are evaluated.\<close>

definition booking1 :: Booking where
  "booking1 = \<lparr>listingId = ''listing-1'', date = ''2025-06-01'', time = ''19:00'',
     participants = 2, status = Confirmed, totalPrice = 300,
     Booking_id = ''booking-1'', createdAt = ''2025-05-01T10:00:00.000Z''\<rparr>"

definition booking2 :: Booking where
  "booking2 = \<lparr>listingId = ''listing-3'', date = ''2025-06-02'', time = ''14:00'',
     participants = 3, status = Pending, totalPrice = 450,
     Booking_id = ''booking-2'', createdAt = ''2025-05-02T10:00:00.000Z''\<rparr>"

definition exampleUser :: User where
  "exampleUser = \<lparr>wishlist = [''listing-1'', ''listing-3''], bookings = [booking1, booking2],
     preferences = [(''theme'', ''light''), (''language'', ''en'')]\<rparr>"

definition listing3 :: Listing where
  "listing3 = \<lparr>Listing_id = ''listing-3'', category = Cultural,
     title = ''Hassan II Mosque Tour'', titleFr = ''Visite de la Mosquee Hassan II'',
     description = ''Guided visit of the mosque'', descriptionFr = ''Visite guidee de la mosquee'',
     price = 150, rating = 4.8, location = \<lparr>lat = 33.6084, lng = -7.6325\<rparr>\<rparr>"

definition listing1 :: Listing where
  "listing1 = \<lparr>Listing_id = ''listing-1'', category = Restaurant,
     title = ''Rick's Cafe'', titleFr = ''Le Rick's Cafe'',
     description = ''Dinner in a legendary setting'', descriptionFr = ''Diner dans un cadre mythique'',
     price = 350, rating = 4.6, location = \<lparr>lat = 33.6062, lng = -7.6195\<rparr>\<rparr>"

definition listing2 :: Listing where
  "listing2 = \<lparr>Listing_id = ''listing-2'', category = Event,
     title = ''Jazz Night'', titleFr = ''Soiree Jazz'',
     description = ''Live music by the ocean'', descriptionFr = ''Musique live au bord de l'ocean'',
     price = 200, rating = 4.2, location = \<lparr>lat = 33.5951, lng = -7.6188\<rparr>\<rparr>"

definition listing4 :: Listing where
  "listing4 = \<lparr>Listing_id = ''listing-4'', category = Restaurant,
     title = ''La Sqala'', titleFr = ''La Sqala'',
     description = ''Moroccan breakfast in a garden'', descriptionFr = ''Petit-dejeuner marocain au jardin'',
     price = 120, rating = 4.4, location = \<lparr>lat = 33.6031, lng = -7.6189\<rparr>\<rparr>"

definition emptyUser :: User where
  "emptyUser = \<lparr>wishlist = [], bookings = [], preferences = []\<rparr>"

definition exampleCatalog :: "Listing list" where
  "exampleCatalog = [listing1, listing2, listing3, listing4]"

definition noFilters :: ListingFilters where
  "noFilters = \<lparr>filter_category = None, minPrice = None, maxPrice = None, minRating = None,
     filter_date = None, filter_location = None\<rparr>"

section \<open>Wishlist: idempotence and absence of duplicates\<close>

lemma wishlist_addToWishlist:
  "wishlist (addToWishlist i u) = (if i \<in> set (wishlist u) then wishlist u else wishlist u @ [i])"
  by (simp add: addToWishlist_def)

lemma wishlist_removeFromWishlist:
  "wishlist (removeFromWishlist i u) = filter (\<lambda>j. j \<noteq> i) (wishlist u)"
  by (simp add: removeFromWishlist_def)

lemma distinct_addToWishlist:
  "distinct (wishlist u) \<Longrightarrow> distinct (wishlist (addToWishlist i u))"
  by (simp add: wishlist_addToWishlist)

lemma distinct_removeFromWishlist:
  "distinct (wishlist u) \<Longrightarrow> distinct (wishlist (removeFromWishlist i u))"
  by (simp add: wishlist_removeFromWishlist)

lemma distinct_wishlistCall:
  "distinct (wishlist u) \<Longrightarrow> distinct (wishlist (wishlistCall c u))"
  by (cases c) (simp_all add: distinct_addToWishlist distinct_removeFromWishlist)

text \<open>
  Claim C7. Adding a listing id twice leaves the user exactly as adding it once does, and the
  id is then a member; adding an id that is already in the wishlist changes nothing, so no
  duplicate is inserted; removing an id that is not in the wishlist leaves the user
  unchanged.
\<close>

theorem wishlist_idempotent:
  "addToWishlist i (addToWishlist i u) = addToWishlist i u
   \<and> i \<in> set (wishlist (addToWishlist i u))
   \<and> (i \<in> set (wishlist u) \<longrightarrow> addToWishlist i u = u)
   \<and> (i \<notin> set (wishlist u) \<longrightarrow> removeFromWishlist i u = u)"
proof -
  have twice: "addToWishlist i (addToWishlist i u) = addToWishlist i u"
    by (simp add: addToWishlist_def)
  have mem: "i \<in> set (wishlist (addToWishlist i u))"
    by (simp add: wishlist_addToWishlist)
  have present: "addToWishlist i u = u" if "i \<in> set (wishlist u)"
    using that by (simp add: addToWishlist_def)
  have absent: "removeFromWishlist i u = u" if "i \<notin> set (wishlist u)"
  proof -
    from that have "filter (\<lambda>j. j \<noteq> i) (wishlist u) = wishlist u"
      by (simp add: filter_id_conv) blast
    then show ?thesis by (simp add: removeFromWishlist_def)
  qed
  from twice mem present absent show ?thesis by simp
qed

theorem wishlist_idempotent_witness:
  "addToWishlist ''listing-7'' (addToWishlist ''listing-7'' exampleUser)
     = exampleUser\<lparr>wishlist := [''listing-1'', ''listing-3'', ''listing-7'']\<rparr>
   \<and> ''listing-1'' \<in> set (wishlist exampleUser)
   \<and> addToWishlist ''listing-1'' exampleUser = exampleUser
   \<and> ''listing-7'' \<notin> set (wishlist exampleUser)
   \<and> removeFromWishlist ''listing-7'' exampleUser = exampleUser"
proof -
  have present: "''listing-1'' \<in> set (wishlist exampleUser)"
    and absent: "''listing-7'' \<notin> set (wishlist exampleUser)"
    by (simp_all add: exampleUser_def)
  have once: "addToWishlist ''listing-7'' exampleUser
     = exampleUser\<lparr>wishlist := [''listing-1'', ''listing-3'', ''listing-7'']\<rparr>"
    by (simp add: addToWishlist_def exampleUser_def)
  from wishlist_idempotent [of "''listing-7''" exampleUser] once absent
  have twice: "addToWishlist ''listing-7'' (addToWishlist ''listing-7'' exampleUser)
     = exampleUser\<lparr>wishlist := [''listing-1'', ''listing-3'', ''listing-7'']\<rparr>"
    and removed: "removeFromWishlist ''listing-7'' exampleUser = exampleUser"
    by simp_all
  from wishlist_idempotent [of "''listing-1''" exampleUser] present
  have kept: "addToWishlist ''listing-1'' exampleUser = exampleUser" by blast
  from twice present kept absent removed show ?thesis by blast
qed

text \<open>
  Claim C10. A wishlist without duplicates stays without duplicates under every sequence
  of \<open>addToWishlist\<close> and \<open>removeFromWishlist\<close> calls; an added id is inserted only
  when absent, and a removal leaves no occurrence of the removed id.
\<close>

theorem wishlist_distinct_invariant:
  "distinct (wishlist u) \<Longrightarrow>
     distinct (wishlist (wishlistCalls cs u))
     \<and> (i \<in> set (wishlist u) \<longrightarrow> wishlist (addToWishlist i u) = wishlist u)
     \<and> i \<notin> set (wishlist (removeFromWishlist i u))"
proof -
  assume d: "distinct (wishlist u)"
  have run: "distinct (wishlist (wishlistCalls cs u))" using d
  proof (induction cs arbitrary: u)
    case Nil
    then show ?case by simp
  next
    case (Cons c cs)
    from Cons.prems have "distinct (wishlist (wishlistCall c u))"
      by (rule distinct_wishlistCall)
    then show ?case using Cons.IH by simp
  qed
  have rem: "i \<notin> set (wishlist (removeFromWishlist i u))"
    by (simp add: wishlist_removeFromWishlist)
  from run rem show ?thesis by (simp add: wishlist_addToWishlist)
qed

theorem wishlist_distinct_invariant_witness:
  "distinct (wishlist (wishlistCalls [Add ''listing-2'', Add ''listing-1'', Remove ''listing-3'', Add ''listing-2'']
       \<lparr>wishlist = [''listing-1'', ''listing-3''], bookings = [], preferences = []\<rparr>))
   \<and> wishlist (wishlistCalls [Add ''listing-2'', Add ''listing-1'', Remove ''listing-3'', Add ''listing-2'']
       \<lparr>wishlist = [''listing-1'', ''listing-3''], bookings = [], preferences = []\<rparr>)
     = [''listing-1'', ''listing-2'']
   \<and> wishlist (addToWishlist ''listing-1''
       \<lparr>wishlist = [''listing-1'', ''listing-3''], bookings = [], preferences = []\<rparr>)
     = [''listing-1'', ''listing-3'']"
  using wishlist_distinct_invariant
    [of "\<lparr>wishlist = [''listing-1'', ''listing-3''], bookings = [], preferences = []\<rparr>"
        "[Add ''listing-2'', Add ''listing-1'', Remove ''listing-3'', Add ''listing-2'']"
        "''listing-1''"]
  by (simp add: addToWishlist_def removeFromWishlist_def)

section \<open>Decimal printing of the clock\<close>

lemma digit_inj: "a < 10 \<Longrightarrow> b < 10 \<Longrightarrow> digit a = digit b \<Longrightarrow> a = b"
proof -
  assume a: "a < 10" and b: "b < 10" and e: "digit a = digit b"
  from a have ca: "a \<in> {0,1,2,3,4,5,6,7,8,9}" by auto
  from b have cb: "b \<in> {0,1,2,3,4,5,6,7,8,9}" by auto
  from ca cb e show ?thesis unfolding digit_def by auto
qed

lemma decimal_small: "n < 10 \<Longrightarrow> decimal n = [digit n]"
  by (subst decimal.simps) simp

lemma decimal_large: "\<not> n < 10 \<Longrightarrow> decimal n = decimal (n div 10) @ [digit (n mod 10)]"
  by (subst decimal.simps) simp

lemma decimal_nonempty: "decimal n \<noteq> []"
  by (cases "n < 10") (simp_all add: decimal_small decimal_large)

lemma decimal_inj: "decimal n = decimal m \<Longrightarrow> n = m"
proof (induction n arbitrary: m rule: decimal.induct)
  case (1 n)
  show ?case
  proof (cases "n < 10")
    case True
    show ?thesis
    proof (cases "m < 10")
      case mt: True
      from 1(2) True mt have "digit n = digit m" by (simp add: decimal_small)
      with True mt show ?thesis using digit_inj by blast
    next
      case mf: False
      from 1(2) True mf have "[digit n] = decimal (m div 10) @ [digit (m mod 10)]"
        by (simp add: decimal_small decimal_large)
      then have "decimal (m div 10) = []" by simp
      with decimal_nonempty show ?thesis by blast
    qed
  next
    case False
    show ?thesis
    proof (cases "m < 10")
      case mt: True
      from 1(2) False mt have "decimal (n div 10) @ [digit (n mod 10)] = [digit m]"
        by (simp add: decimal_small decimal_large)
      then have "decimal (n div 10) = []" by simp
      with decimal_nonempty show ?thesis by blast
    next
      case mf: False
      from 1(2) False mf
      have e: "decimal (n div 10) @ [digit (n mod 10)] = decimal (m div 10) @ [digit (m mod 10)]"
        by (simp add: decimal_large)
      then have e1: "decimal (n div 10) = decimal (m div 10)"
        and e2: "digit (n mod 10) = digit (m mod 10)" by simp_all
      from 1(1)[OF False e1] have d: "n div 10 = m div 10" .
      from e2 have r: "n mod 10 = m mod 10" by (intro digit_inj) simp_all
      have "n = 10 * (n div 10) + n mod 10" by simp
      also have "\<dots> = 10 * (m div 10) + m mod 10" using d r by simp
      also have "\<dots> = m" by simp
      finally show ?thesis .
    qed
  qed
qed

section \<open>Cancelling a booking\<close>

lemma find_None_ids:
  "List.find (\<lambda>b. Booking_id b = i) bs = None \<longleftrightarrow> i \<notin> Booking_id ` set bs"
  by (auto simp: find_None_iff)

lemma find_update_cancelFirst:
  "(case List.find (\<lambda>b. Booking_id b = i) bs of
      None \<Rightarrow> bs
    | Some b \<Rightarrow> bs[length (takeWhile (\<lambda>b. Booking_id b \<noteq> i) bs) := b\<lparr>status := Cancelled\<rparr>])
   = cancelFirst i bs"
proof (induction bs)
  case Nil
  then show ?case by simp
next
  case (Cons a bs)
  then show ?case by (cases "Booking_id a = i") (auto split: option.splits)
qed

lemma cancelBooking_eq:
  "cancelBooking i u = u\<lparr>bookings := cancelFirst i (bookings u)\<rparr>"
  unfolding find_update_cancelFirst[symmetric]
  by (simp add: cancelBooking_def split: option.splits)

lemma cancelBooking_absent:
  "i \<notin> Booking_id ` set (bookings u) \<Longrightarrow> cancelBooking i u = u"
  by (simp add: cancelBooking_def find_None_ids[symmetric])

lemma cancelFirst_idem: "cancelFirst i (cancelFirst i bs) = cancelFirst i bs"
  by (induction bs) auto

lemma cancelFirst_length: "length (cancelFirst i bs) = length bs"
  by (induction bs) auto

lemma cancelFirst_ids: "map Booking_id (cancelFirst i bs) = map Booking_id bs"
  by (induction bs) auto

lemma cancelFirst_frozen: "frozen (cancelFirst i bs) = frozen bs"
  unfolding frozen_def by (induction bs) auto

lemma cancelFirst_nth:
  "k < length bs \<Longrightarrow>
     cancelFirst i bs ! k =
       (if Booking_id (bs ! k) = i \<and> i \<notin> Booking_id ` set (take k bs)
        then (bs ! k)\<lparr>status := Cancelled\<rparr> else bs ! k)"
proof (induction bs arbitrary: k)
  case Nil
  then show ?case by simp
next
  case (Cons a bs)
  show ?case
  proof (cases k)
    case 0
    then show ?thesis by simp
  next
    case (Suc j)
    with Cons.prems have "j < length bs" by simp
    from Cons.IH[OF this] Suc show ?thesis by simp
  qed
qed

lemma cancelFirst_cancels:
  "i \<in> Booking_id ` set bs \<Longrightarrow>
     \<exists>b \<in> set (cancelFirst i bs). Booking_id b = i \<and> status b = Cancelled"
  by (induction bs) auto

text \<open>
  Claim C5. Cancelling an id that no booking carries changes nothing. Otherwise the first
  booking with that id, whatever its status, gets status \<open>Cancelled\<close> and every other
  booking stays as it is. A second cancellation of the same id leaves the user as the first
  one did. The collection keeps its length and its ids in order: nothing is removed.
\<close>

theorem cancelBooking_behaviour:
  "(i \<notin> Booking_id ` set (bookings u) \<longrightarrow> cancelBooking i u = u)
   \<and> (\<forall>k < length (bookings u).
        bookings (cancelBooking i u) ! k =
          (if Booking_id (bookings u ! k) = i \<and> i \<notin> Booking_id ` set (take k (bookings u))
           then (bookings u ! k)\<lparr>status := Cancelled\<rparr> else bookings u ! k))
   \<and> (i \<in> Booking_id ` set (bookings u) \<longrightarrow>
        (\<exists>b \<in> set (bookings (cancelBooking i u)). Booking_id b = i \<and> status b = Cancelled))
   \<and> cancelBooking i (cancelBooking i u) = cancelBooking i u
   \<and> length (bookings (cancelBooking i u)) = length (bookings u)
   \<and> map Booking_id (bookings (cancelBooking i u)) = map Booking_id (bookings u)
   \<and> wishlist (cancelBooking i u) = wishlist u
   \<and> preferences (cancelBooking i u) = preferences u"
proof -
  have absent: "i \<notin> Booking_id ` set (bookings u) \<longrightarrow> cancelBooking i u = u"
    using cancelBooking_absent by blast
  have pointwise: "\<forall>k < length (bookings u).
        bookings (cancelBooking i u) ! k =
          (if Booking_id (bookings u ! k) = i \<and> i \<notin> Booking_id ` set (take k (bookings u))
           then (bookings u ! k)\<lparr>status := Cancelled\<rparr> else bookings u ! k)"
    by (simp add: cancelBooking_eq cancelFirst_nth)
  have found: "i \<in> Booking_id ` set (bookings u) \<longrightarrow>
        (\<exists>b \<in> set (bookings (cancelBooking i u)). Booking_id b = i \<and> status b = Cancelled)"
    using cancelFirst_cancels by (simp add: cancelBooking_eq)
  have again: "cancelBooking i (cancelBooking i u) = cancelBooking i u"
    by (simp add: cancelBooking_eq cancelFirst_idem)
  have kept: "length (bookings (cancelBooking i u)) = length (bookings u)"
    "map Booking_id (bookings (cancelBooking i u)) = map Booking_id (bookings u)"
    by (simp_all add: cancelBooking_eq cancelFirst_length cancelFirst_ids)
  have rest: "wishlist (cancelBooking i u) = wishlist u"
    "preferences (cancelBooking i u) = preferences u"
    by (simp_all add: cancelBooking_eq)
  from absent pointwise found again kept rest show ?thesis by blast
qed

theorem cancelBooking_behaviour_witness:
  "''booking-9'' \<notin> Booking_id ` set (bookings exampleUser)
   \<and> cancelBooking ''booking-9'' exampleUser = exampleUser
   \<and> (0::nat) < length (bookings exampleUser)
   \<and> bookings (cancelBooking ''booking-1'' exampleUser) ! 0 = booking1\<lparr>status := Cancelled\<rparr>
   \<and> bookings (cancelBooking ''booking-1'' exampleUser) = [booking1\<lparr>status := Cancelled\<rparr>, booking2]
   \<and> cancelBooking ''booking-1'' (cancelBooking ''booking-1'' exampleUser)
       = cancelBooking ''booking-1'' exampleUser"
proof -
  have absent: "''booking-9'' \<notin> Booking_id ` set (bookings exampleUser)"
    by (simp add: exampleUser_def booking1_def booking2_def)
  have nonempty: "(0::nat) < length (bookings exampleUser)"
    by (simp add: exampleUser_def)
  have first: "Booking_id (bookings exampleUser ! 0) = ''booking-1''
      \<and> ''booking-1'' \<notin> Booking_id ` set (take 0 (bookings exampleUser))"
    by (simp add: exampleUser_def booking1_def)
  have b0: "bookings exampleUser ! 0 = booking1" by (simp add: exampleUser_def)
  have all: "bookings (cancelBooking ''booking-1'' exampleUser) = [booking1\<lparr>status := Cancelled\<rparr>, booking2]"
    by (simp add: cancelBooking_def exampleUser_def booking1_def booking2_def)
  from cancelBooking_behaviour [of "''booking-9''" exampleUser] absent
  have c9: "cancelBooking ''booking-9'' exampleUser = exampleUser" by blast
  from cancelBooking_behaviour [of "''booking-1''" exampleUser] nonempty first b0
  have c1: "bookings (cancelBooking ''booking-1'' exampleUser) ! 0 = booking1\<lparr>status := Cancelled\<rparr>"
    and c2: "cancelBooking ''booking-1'' (cancelBooking ''booking-1'' exampleUser)
       = cancelBooking ''booking-1'' exampleUser"
    by simp_all
  from absent c9 nonempty c1 all c2 show ?thesis by blast
qed

section \<open>Creating a booking\<close>

lemma createBooking_fst:
  "fst (createBooking nowMs nowIso booking u) =
     \<lparr>listingId = listingId booking, date = date booking, time = time booking,
      participants = participants booking, status = status booking,
      totalPrice = totalPrice booking,
      Booking_id = ''booking-'' @ decimal nowMs, createdAt = nowIso\<rparr>"
  by (simp add: createBooking_def Let_def)

lemma createBooking_snd:
  "snd (createBooking nowMs nowIso booking u) =
     u\<lparr>bookings := bookings u @ [fst (createBooking nowMs nowIso booking u)]\<rparr>"
  by (simp add: createBooking_def Let_def)

text \<open>
  Claim C1, as stated, fails on the code. \<^verbatim>\<open>createBooking\<close> has no check and no failing
  path: a draft with 0 participants is stored and returned like any other. It never reads
  the catalog: the stored total is the one the caller passes, here 1 for three participants
  of a listing priced 150. And two bookings created at the same clock reading get the same
  id.
\<close>

theorem createBooking_counterexample:
  "\<not> 1 \<le> participants \<lparr>listingId = ''listing-3'', date = ''2025-06-01'', time = ''14:00'',
        participants = 0, status = Confirmed, totalPrice = 450\<rparr>
   \<and> createBooking 1748779200000 ''2025-06-01T12:00:00.000Z''
        \<lparr>listingId = ''listing-3'', date = ''2025-06-01'', time = ''14:00'',
         participants = 0, status = Confirmed, totalPrice = 450\<rparr> emptyUser
      = (\<lparr>listingId = ''listing-3'', date = ''2025-06-01'', time = ''14:00'',
          participants = 0, status = Confirmed, totalPrice = 450,
          Booking_id = ''booking-1748779200000'', createdAt = ''2025-06-01T12:00:00.000Z''\<rparr>,
         \<lparr>wishlist = [], bookings =
           [\<lparr>listingId = ''listing-3'', date = ''2025-06-01'', time = ''14:00'',
             participants = 0, status = Confirmed, totalPrice = 450,
             Booking_id = ''booking-1748779200000'', createdAt = ''2025-06-01T12:00:00.000Z''\<rparr>],
          preferences = []\<rparr>)
   \<and> map_option price (getListing [listing3] ''listing-3'') = Some 150
   \<and> totalPrice (fst (createBooking 1748779200000 ''2025-06-01T12:00:00.000Z''
        \<lparr>listingId = ''listing-3'', date = ''2025-06-01'', time = ''14:00'',
         participants = 3, status = Confirmed, totalPrice = 1\<rparr> emptyUser)) \<noteq> 150 * 3
   \<and> map Booking_id (bookings (snd (createBooking 1748779200000 ''2025-06-01T12:00:00.001Z''
        \<lparr>listingId = ''listing-1'', date = ''2025-06-03'', time = ''19:00'',
         participants = 2, status = Confirmed, totalPrice = 300\<rparr>
        (snd (createBooking 1748779200000 ''2025-06-01T12:00:00.000Z''
          \<lparr>listingId = ''listing-3'', date = ''2025-06-01'', time = ''14:00'',
           participants = 3, status = Confirmed, totalPrice = 450\<rparr> emptyUser)))))
      = [''booking-1748779200000'', ''booking-1748779200000'']"
  by (simp add: createBooking_def Let_def emptyUser_def listing3_def getListing_def
        decimal.simps digit_def)

text \<open>
  Claim C1, amended. \<^verbatim>\<open>createBooking\<close> validates nothing and always succeeds: it copies
  the six fields of the caller's draft unchanged (the total price among them), sets the id
  to \<^verbatim>\<open>booking-\<close> followed by the clock reading and the creation timestamp to the
  current time, appends the new record at the end of the user's bookings, leaves wishlist
  and preferences alone, and returns the record. Bookings created at different clock
  readings have different ids. The participant check and the price computation are the
  booking dialog's: \<^verbatim>\<open>handleFormSubmit\<close> moves from the form to the payment step exactly
  when date and time are non-empty and participants > 0, and \<^verbatim>\<open>handlePaymentSubmit\<close>
  creates a confirmed booking whose total is the listing's price times the participants.
\<close>

theorem createBooking_unvalidated:
  "bookings (snd (createBooking nowMs nowIso booking u))
      = bookings u @ [fst (createBooking nowMs nowIso booking u)]
   \<and> wishlist (snd (createBooking nowMs nowIso booking u)) = wishlist u
   \<and> preferences (snd (createBooking nowMs nowIso booking u)) = preferences u
   \<and> listingId (fst (createBooking nowMs nowIso booking u)) = listingId booking
   \<and> date (fst (createBooking nowMs nowIso booking u)) = date booking
   \<and> time (fst (createBooking nowMs nowIso booking u)) = time booking
   \<and> participants (fst (createBooking nowMs nowIso booking u)) = participants booking
   \<and> status (fst (createBooking nowMs nowIso booking u)) = status booking
   \<and> totalPrice (fst (createBooking nowMs nowIso booking u)) = totalPrice booking
   \<and> Booking_id (fst (createBooking nowMs nowIso booking u)) = ''booking-'' @ decimal nowMs
   \<and> createdAt (fst (createBooking nowMs nowIso booking u)) = nowIso
   \<and> (nowMs \<noteq> nowMs' \<longrightarrow>
        Booking_id (fst (createBooking nowMs nowIso booking u))
          \<noteq> Booking_id (fst (createBooking nowMs' nowIso' booking' u')))
   \<and> (handleFormSubmit form Form = Payment
        \<longleftrightarrow> form_date form \<noteq> [] \<and> form_time form \<noteq> [] \<and> 0 < form_participants form)
   \<and> fst (handlePaymentSubmit nowMs nowIso listing form u) = Success
   \<and> bookings (snd (handlePaymentSubmit nowMs nowIso listing form u))
      = bookings u @
        [\<lparr>listingId = Listing_id listing, date = form_date form, time = form_time form,
          participants = form_participants form, status = Confirmed,
          totalPrice = price listing * of_int (form_participants form),
          Booking_id = ''booking-'' @ decimal nowMs, createdAt = nowIso\<rparr>]"
proof -
  have appended: "bookings (snd (createBooking nowMs nowIso booking u))
      = bookings u @ [fst (createBooking nowMs nowIso booking u)]"
    "wishlist (snd (createBooking nowMs nowIso booking u)) = wishlist u"
    "preferences (snd (createBooking nowMs nowIso booking u)) = preferences u"
    by (simp_all add: createBooking_snd)
  have copied: "listingId (fst (createBooking nowMs nowIso booking u)) = listingId booking"
    "date (fst (createBooking nowMs nowIso booking u)) = date booking"
    "time (fst (createBooking nowMs nowIso booking u)) = time booking"
    "participants (fst (createBooking nowMs nowIso booking u)) = participants booking"
    "status (fst (createBooking nowMs nowIso booking u)) = status booking"
    "totalPrice (fst (createBooking nowMs nowIso booking u)) = totalPrice booking"
    by (simp_all add: createBooking_fst)
  have stamped: "Booking_id (fst (createBooking nowMs nowIso booking u)) = ''booking-'' @ decimal nowMs"
    "createdAt (fst (createBooking nowMs nowIso booking u)) = nowIso"
    by (simp_all add: createBooking_fst)
  have fresh: "nowMs \<noteq> nowMs' \<longrightarrow>
        Booking_id (fst (createBooking nowMs nowIso booking u))
          \<noteq> Booking_id (fst (createBooking nowMs' nowIso' booking' u'))"
    using decimal_inj by (auto simp: createBooking_fst)
  have gate: "handleFormSubmit form Form = Payment
        \<longleftrightarrow> form_date form \<noteq> [] \<and> form_time form \<noteq> [] \<and> 0 < form_participants form"
    by (simp add: handleFormSubmit_def)
  have dialog: "fst (handlePaymentSubmit nowMs nowIso listing form u) = Success"
    "bookings (snd (handlePaymentSubmit nowMs nowIso listing form u))
      = bookings u @
        [\<lparr>listingId = Listing_id listing, date = form_date form, time = form_time form,
          participants = form_participants form, status = Confirmed,
          totalPrice = price listing * of_int (form_participants form),
          Booking_id = ''booking-'' @ decimal nowMs, createdAt = nowIso\<rparr>]"
    by (simp_all add: handlePaymentSubmit_def createBooking_def Let_def)
  from appended copied stamped fresh gate dialog show ?thesis by blast
qed

theorem createBooking_unvalidated_witness:
  "(1748779200000::nat) \<noteq> 1748779200001
   \<and> Booking_id (fst (createBooking 1748779200000 ''2025-06-01T12:00:00.000Z''
        \<lparr>listingId = ''listing-3'', date = ''2025-06-01'', time = ''14:00'',
         participants = 3, status = Confirmed, totalPrice = 450\<rparr> emptyUser))
      \<noteq> Booking_id (fst (createBooking 1748779200001 ''2025-06-01T12:00:00.001Z''
        \<lparr>listingId = ''listing-3'', date = ''2025-06-01'', time = ''14:00'',
         participants = 3, status = Confirmed, totalPrice = 450\<rparr> emptyUser))
   \<and> handleFormSubmit \<lparr>form_date = ''2025-06-01'', form_time = ''14:00'', form_participants = 3\<rparr> Form
      = Payment
   \<and> handleFormSubmit \<lparr>form_date = ''2025-06-01'', form_time = ''14:00'', form_participants = 0\<rparr> Form
      = Form
   \<and> bookings (snd (handlePaymentSubmit 1748779200000 ''2025-06-01T12:00:00.000Z'' listing3
        \<lparr>form_date = ''2025-06-01'', form_time = ''14:00'', form_participants = 3\<rparr> emptyUser))
      = [\<lparr>listingId = ''listing-3'', date = ''2025-06-01'', time = ''14:00'',
          participants = 3, status = Confirmed, totalPrice = 450,
          Booking_id = ''booking-1748779200000'', createdAt = ''2025-06-01T12:00:00.000Z''\<rparr>]"
proof -
  let ?d = "\<lparr>listingId = ''listing-3'', date = ''2025-06-01'', time = ''14:00'',
          participants = 3, status = Confirmed, totalPrice = 450\<rparr>"
  let ?f = "\<lparr>form_date = ''2025-06-01'', form_time = ''14:00'', form_participants = 3\<rparr>"
  note T = createBooking_unvalidated
    [of 1748779200000 "''2025-06-01T12:00:00.000Z''" ?d emptyUser
        1748779200001 "''2025-06-01T12:00:00.001Z''" ?d emptyUser ?f listing3]
  have ne: "(1748779200000::nat) \<noteq> 1748779200001" by simp
  have dec: "decimal 1748779200000 = ''1748779200000''"
    by (simp add: decimal.simps digit_def)
  from T ne have fresh:
    "Booking_id (fst (createBooking 1748779200000 ''2025-06-01T12:00:00.000Z'' ?d emptyUser))
      \<noteq> Booking_id (fst (createBooking 1748779200001 ''2025-06-01T12:00:00.001Z'' ?d emptyUser))"
    by blast
  from T have "handleFormSubmit ?f Form = Payment
        \<longleftrightarrow> form_date ?f \<noteq> [] \<and> form_time ?f \<noteq> [] \<and> 0 < form_participants ?f"
    by blast
  then have gate: "handleFormSubmit ?f Form = Payment" by simp
  have stay: "handleFormSubmit
      \<lparr>form_date = ''2025-06-01'', form_time = ''14:00'', form_participants = 0\<rparr> Form = Form"
    by (simp add: handleFormSubmit_def)
  from T have "bookings (snd (handlePaymentSubmit 1748779200000 ''2025-06-01T12:00:00.000Z'' listing3 ?f emptyUser))
      = bookings emptyUser @
        [\<lparr>listingId = Listing_id listing3, date = form_date ?f, time = form_time ?f,
          participants = form_participants ?f, status = Confirmed,
          totalPrice = price listing3 * of_int (form_participants ?f),
          Booking_id = ''booking-'' @ decimal 1748779200000,
          createdAt = ''2025-06-01T12:00:00.000Z''\<rparr>]"
    by blast
  then have dialog:
    "bookings (snd (handlePaymentSubmit 1748779200000 ''2025-06-01T12:00:00.000Z'' listing3 ?f emptyUser))
      = [\<lparr>listingId = ''listing-3'', date = ''2025-06-01'', time = ''14:00'',
          participants = 3, status = Confirmed, totalPrice = 450,
          Booking_id = ''booking-1748779200000'', createdAt = ''2025-06-01T12:00:00.000Z''\<rparr>]"
    by (simp add: dec listing3_def emptyUser_def)
  from ne fresh gate stay dialog show ?thesis by blast
qed

section \<open>The price freeze\<close>

lemma apiCall_frozen:
  "\<exists>ext. frozen (bookings (user (apiCall c s))) = frozen (bookings (user s)) @ ext"
proof (cases c)
  case (CreateBooking nowMs nowIso booking)
  then show ?thesis by (simp add: createBooking_snd frozen_def)
next
  case (CancelBooking i)
  then show ?thesis by (simp add: cancelBooking_eq cancelFirst_frozen)
qed (simp_all add: updateUserPreferences_def addToWishlist_def removeFromWishlist_def)

lemma apiCalls_frozen:
  "\<exists>ext. frozen (bookings (user (apiCalls cs s))) = frozen (bookings (user s)) @ ext"
proof (induction cs arbitrary: s)
  case Nil
  then show ?case by simp
next
  case (Cons c cs)
  from apiCall_frozen obtain e1 where
    e1: "frozen (bookings (user (apiCall c s))) = frozen (bookings (user s)) @ e1" by blast
  from Cons.IH obtain e2 where
    e2: "frozen (bookings (user (apiCalls cs (apiCall c s)))) = frozen (bookings (user (apiCall c s))) @ e2"
    by blast
  from e1 e2 show ?case by simp
qed

text \<open>
  Claim C6. Once \<open>createBooking\<close> has returned, the new booking stands at the position
  where it was appended, and after every sequence of later calls (preference updates,
  wishlist changes, further bookings, cancellations, and changes of any listing's price)
  the booking at that position still has the id and the total price it was created with.
  The same holds for every booking that was already there.
\<close>

theorem totalPrice_frozen:
  "length (bookings (user s)) < length (bookings (user
       (apiCalls cs (s\<lparr>user := snd (createBooking nowMs nowIso booking (user s))\<rparr>))))
   \<and> totalPrice (bookings (user
       (apiCalls cs (s\<lparr>user := snd (createBooking nowMs nowIso booking (user s))\<rparr>)))
         ! length (bookings (user s))) = totalPrice booking
   \<and> Booking_id (bookings (user
       (apiCalls cs (s\<lparr>user := snd (createBooking nowMs nowIso booking (user s))\<rparr>)))
         ! length (bookings (user s))) = Booking_id (fst (createBooking nowMs nowIso booking (user s)))
   \<and> map totalPrice (take (length (bookings (user s))) (bookings (user (apiCalls cs s))))
       = map totalPrice (bookings (user s))"
proof -
  define n where "n = length (bookings (user s))"
  define s' where "s' = s\<lparr>user := snd (createBooking nowMs nowIso booking (user s))\<rparr>"
  define b where "b = fst (createBooking nowMs nowIso booking (user s))"
  have start: "frozen (bookings (user s')) = frozen (bookings (user s)) @ [(Booking_id b, totalPrice booking)]"
    by (simp add: s'_def b_def createBooking_snd createBooking_fst frozen_def)
  from apiCalls_frozen obtain ext where
    ext: "frozen (bookings (user (apiCalls cs s'))) = frozen (bookings (user s')) @ ext" by blast
  from start ext have all: "frozen (bookings (user (apiCalls cs s')))
      = frozen (bookings (user s)) @ (Booking_id b, totalPrice booking) # ext" by simp
  have len: "length (frozen (bookings (user s))) = n" by (simp add: frozen_def n_def)
  from all have "length (frozen (bookings (user (apiCalls cs s')))) = n + 1 + length ext"
    using len by simp
  then have l: "n < length (bookings (user (apiCalls cs s')))" by (simp add: frozen_def)
  from all len have "frozen (bookings (user (apiCalls cs s'))) ! n = (Booking_id b, totalPrice booking)"
    by (simp add: nth_append)
  with l have at: "Booking_id (bookings (user (apiCalls cs s')) ! n) = Booking_id b
      \<and> totalPrice (bookings (user (apiCalls cs s')) ! n) = totalPrice booking"
    by (simp add: frozen_def)
  from apiCalls_frozen obtain ext0 where
    ext0: "frozen (bookings (user (apiCalls cs s))) = frozen (bookings (user s)) @ ext0" by blast
  then have "take n (frozen (bookings (user (apiCalls cs s)))) = frozen (bookings (user s))"
    using len by simp
  then have "map snd (take n (frozen (bookings (user (apiCalls cs s))))) = map snd (frozen (bookings (user s)))"
    by simp
  then have old: "map totalPrice (take n (bookings (user (apiCalls cs s)))) = map totalPrice (bookings (user s))"
    by (simp add: frozen_def take_map comp_def)
  from l at old show ?thesis unfolding n_def s'_def b_def by simp
qed

text \<open>
  The scenario of the specification: a booking for three participants of a listing priced 150
  keeps its total of 450 after the listing's price is changed to 999 and the booking is
  cancelled.
\<close>

lemma price_freeze_scenario:
  "map totalPrice (bookings (user (apiCalls
       [CreateBooking 1748779200000 ''2025-06-01T12:00:00.000Z''
          \<lparr>listingId = ''listing-3'', date = ''2025-06-01'', time = ''14:00'',
           participants = 3, status = Confirmed, totalPrice = 450\<rparr>,
        ChangeListingPrice ''listing-3'' 999,
        CancelBooking ''booking-1748779200000'']
       \<lparr>listings = [listing3], user = emptyUser\<rparr>))) = [450]
   \<and> map price (listings (apiCalls
       [CreateBooking 1748779200000 ''2025-06-01T12:00:00.000Z''
          \<lparr>listingId = ''listing-3'', date = ''2025-06-01'', time = ''14:00'',
           participants = 3, status = Confirmed, totalPrice = 450\<rparr>,
        ChangeListingPrice ''listing-3'' 999,
        CancelBooking ''booking-1748779200000'']
       \<lparr>listings = [listing3], user = emptyUser\<rparr>)) = [999]"
  by (simp add: createBooking_def Let_def cancelBooking_def emptyUser_def listing3_def
        decimal.simps digit_def)

section \<open>The haversine distance\<close>

lemma cos_product: "cos (m - x) * cos (m + x) = (cos x)\<^sup>2 - (sin m)\<^sup>2" for m x :: real
proof -
  have "cos (m - x) * cos (m + x)
      = (cos m * cos x + sin m * sin x) * (cos m * cos x - sin m * sin x)"
    by (simp add: cos_add cos_diff)
  also have "\<dots> = (cos m)\<^sup>2 * (cos x)\<^sup>2 - (sin m)\<^sup>2 * (sin x)\<^sup>2"
    by (simp add: power2_eq_square algebra_simps)
  also have "\<dots> = (1 - (sin m)\<^sup>2) * (cos x)\<^sup>2 - (sin m)\<^sup>2 * (1 - (cos x)\<^sup>2)"
    by (simp only: cos_squared_eq[of m] sin_squared_eq[of x])
  also have "\<dots> = (cos x)\<^sup>2 - (sin m)\<^sup>2"
    by (simp add: algebra_simps)
  finally show ?thesis .
qed

lemma haversine_a_alt:
  "haversine_a lat1 lon1 lat2 lon2 =
     (sin (deg2rad (lat2 - lat1) / 2))\<^sup>2
     + ((cos (deg2rad (lat2 - lat1) / 2))\<^sup>2 - (sin (deg2rad (lat1 + lat2) / 2))\<^sup>2)
       * (sin (deg2rad (lon2 - lon1) / 2))\<^sup>2"
proof -
  define m where "m = deg2rad (lat1 + lat2) / 2"
  define x where "x = deg2rad (lat2 - lat1) / 2"
  have l1: "deg2rad lat1 = m - x" by (simp add: m_def x_def deg2rad_def field_simps)
  have l2: "deg2rad lat2 = m + x" by (simp add: m_def x_def deg2rad_def field_simps)
  have "cos (deg2rad lat1) * cos (deg2rad lat2) = (cos x)\<^sup>2 - (sin m)\<^sup>2"
    unfolding l1 l2 by (rule cos_product)
  then have "haversine_a lat1 lon1 lat2 lon2 =
     sin x * sin x + ((cos x)\<^sup>2 - (sin m)\<^sup>2)
       * sin (deg2rad (lon2 - lon1) / 2) * sin (deg2rad (lon2 - lon1) / 2)"
    by (simp add: haversine_a_def Let_def x_def)
  then show ?thesis
    by (simp add: m_def x_def power2_eq_square mult.assoc)
qed

lemma haversine_a_bounds:
  "0 \<le> haversine_a lat1 lon1 lat2 lon2" "haversine_a lat1 lon1 lat2 lon2 \<le> 1"
proof -
  define sx where "sx = (sin (deg2rad (lat2 - lat1) / 2))\<^sup>2"
  define cx where "cx = (cos (deg2rad (lat2 - lat1) / 2))\<^sup>2"
  define sm where "sm = (sin (deg2rad (lat1 + lat2) / 2))\<^sup>2"
  define s where "s = (sin (deg2rad (lon2 - lon1) / 2))\<^sup>2"
  have a: "haversine_a lat1 lon1 lat2 lon2 = sx + (cx - sm) * s"
    by (simp add: haversine_a_alt sx_def cx_def sm_def s_def)
  have one: "sx + cx = 1" by (simp add: sx_def cx_def)
  have s0: "0 \<le> s" and s1: "s \<le> 1" by (simp_all add: s_def abs_square_le_1)
  have sm0: "0 \<le> sm" and sm1: "sm \<le> 1" by (simp_all add: sm_def abs_square_le_1)
  have sx0: "0 \<le> sx" and cx0: "0 \<le> cx" by (simp_all add: sx_def cx_def)
  from one have cx_eq: "cx = 1 - sx" by simp
  have "sx + (cx - sm) * s = sx * (1 - s) + (1 - sm) * s"
    unfolding cx_eq by (simp add: algebra_simps)
  moreover have "0 \<le> sx * (1 - s)" using sx0 s1 by simp
  moreover have "0 \<le> (1 - sm) * s" using sm1 s0 by simp
  ultimately show "0 \<le> haversine_a lat1 lon1 lat2 lon2" using a by simp
  have "(cx - sm) * s \<le> cx * s" using sm0 s0 by (simp add: mult_right_mono)
  also have "\<dots> \<le> cx" using cx0 s1 by (simp add: mult_left_le)
  finally show "haversine_a lat1 lon1 lat2 lon2 \<le> 1" using a one by simp
qed

lemma Math_atan2_nonneg: "0 \<le> y \<Longrightarrow> 0 \<le> x \<Longrightarrow> 0 \<le> Math_atan2 y x"
  by (simp add: Math_atan2_def)

lemma calculateDistance_eq:
  "calculateDistance lat1 lon1 lat2 lon2 =
     Some (6371 * (2 * Math_atan2 (sqrt (haversine_a lat1 lon1 lat2 lon2))
                                 (sqrt (1 - haversine_a lat1 lon1 lat2 lon2))))"
  using haversine_a_bounds[of lat1 lon1 lat2 lon2]
  by (simp add: calculateDistance_def calculateDistance_tail_def Math_sqrt_def Let_def)

lemma atan2_arcsin:
  assumes "0 \<le> a" "a \<le> 1"
  shows "Math_atan2 (sqrt a) (sqrt (1 - a)) = arcsin (sqrt a)"
proof (cases "a = 1")
  case True
  then show ?thesis by (simp add: Math_atan2_def)
next
  case False
  with assms have lt: "a < 1" by simp
  then have pos: "0 < sqrt (1 - a)" by simp
  from assms have "0 \<le> sqrt a" by simp
  then have r1: "- 1 < sqrt a" by linarith
  from lt have r2: "sqrt a < 1" by (simp add: real_sqrt_lt_1_iff)
  note r = r1 r2
  from arcsin_arctan[OF r] assms have "arcsin (sqrt a) = arctan (sqrt a / sqrt (1 - a))"
    by simp
  with pos show ?thesis by (simp add: Math_atan2_def)
qed

lemma haversine_a_same: "haversine_a lat1 lon1 lat1 lon1 = 0"
  by (simp add: haversine_a_def deg2rad_def)

text \<open>
  The formula in exact arithmetic. There the haversine term lies between 0 and 1, so neither
  square root is taken of a negative value and the result is a number that is at least 0;
  for two points at the same coordinates it is 0; and it is the great-circle distance,
  Earth radius 6371 times twice the arcsine of the square root of the haversine term, with
  every angle converted from degrees by the factor \<open>pi / 180\<close>.
\<close>

lemma calculateDistance_exact:
  "(\<exists>d. calculateDistance lat1 lon1 lat2 lon2 = Some d \<and> 0 \<le> d)
   \<and> calculateDistance lat1 lon1 lat1 lon1 = Some 0
   \<and> (\<exists>d. calculateDistance 33.5892 (- 7.6125) 33.5892 (- 7.6125) = Some d \<and> \<bar>d - 0\<bar> \<le> 1 / 10 ^ 9)
   \<and> calculateDistance lat1 lon1 lat2 lon2 =
       Some (6371 * (2 * arcsin (sqrt
         ((sin ((lat2 - lat1) * (pi / 180) / 2))\<^sup>2
          + cos (lat1 * (pi / 180)) * cos (lat2 * (pi / 180))
            * (sin ((lon2 - lon1) * (pi / 180) / 2))\<^sup>2))))"
proof -
  let ?a = "haversine_a lat1 lon1 lat2 lon2"
  have b: "0 \<le> ?a" "?a \<le> 1" by (rule haversine_a_bounds)+
  then have "0 \<le> Math_atan2 (sqrt ?a) (sqrt (1 - ?a))"
    by (intro Math_atan2_nonneg) simp_all
  then have nonneg: "\<exists>d. calculateDistance lat1 lon1 lat2 lon2 = Some d \<and> 0 \<le> d"
    by (simp add: calculateDistance_eq)
  have same: "calculateDistance lat lon lat lon = Some 0" for lat lon
    by (simp add: calculateDistance_eq haversine_a_same Math_atan2_def)
  have casa: "\<exists>d. calculateDistance 33.5892 (- 7.6125) 33.5892 (- 7.6125) = Some d \<and> \<bar>d - 0\<bar> \<le> 1 / 10 ^ 9"
    by (simp add: same)
  have "?a = (sin ((lat2 - lat1) * (pi / 180) / 2))\<^sup>2
          + cos (lat1 * (pi / 180)) * cos (lat2 * (pi / 180))
            * (sin ((lon2 - lon1) * (pi / 180) / 2))\<^sup>2"
    by (simp add: haversine_a_def deg2rad_def Let_def power2_eq_square)
  with atan2_arcsin[OF b] have formula: "calculateDistance lat1 lon1 lat2 lon2 =
       Some (6371 * (2 * arcsin (sqrt
         ((sin ((lat2 - lat1) * (pi / 180) / 2))\<^sup>2
          + cos (lat1 * (pi / 180)) * cos (lat2 * (pi / 180))
            * (sin ((lon2 - lon1) * (pi / 180) / 2))\<^sup>2))))"
    by (simp add: calculateDistance_eq)
  from nonneg same casa formula show ?thesis by blast
qed



section \<open>Filtering and pagination\<close>

lemma filter_if: "(if b then filter P xs else xs) = filter (\<lambda>x. if b then P x else True) xs"
  by simp

lemma filter_case_option:
  "(case v of Some c \<Rightarrow> filter (P c) xs | None \<Rightarrow> xs)
     = filter (\<lambda>x. case v of Some c \<Rightarrow> P c x | None \<Rightarrow> True) xs"
  by (cases v) simp_all

lemma applyFilters_filter: "applyFilters c filters = filter (passes filters) c"
proof (cases filters)
  case None
  then show ?thesis by (simp add: applyFilters_def passes_def)
next
  case (Some f)
  have "applyFilters c (Some f) =
      filter (\<lambda>l. case filter_location f of Some loc \<Rightarrow> withinRadius loc l | None \<Rightarrow> True)
       (filter (\<lambda>l. if truthy (minRating f) then rating l \<ge> the (minRating f) else True)
         (filter (\<lambda>l. if truthy (maxPrice f) then price l \<le> the (maxPrice f) else True)
           (filter (\<lambda>l. if truthy (minPrice f) then price l \<ge> the (minPrice f) else True)
             (filter (\<lambda>l. case filter_category f of Some k \<Rightarrow> category l = k | None \<Rightarrow> True) c))))"
    unfolding applyFilters_def Let_def option.case
    by (simp only: filter_if[symmetric] filter_case_option[symmetric])
  also have "\<dots> = filter (passes (Some f)) c"
    unfolding filter_filter by (rule filter_cong) (auto simp: passes_def)
  finally show ?thesis using Some by simp
qed

lemma slice_page:
  assumes "0 \<le> start" "0 \<le> n"
  shows "slice xs start (start + n) = take (nat n) (drop (nat start) xs)"
proof (cases "start \<le> int (length xs)")
  case True
  with assms have "take (nat (min (start + n) (int (length xs)) - start)) (drop (nat start) xs)
      = take (nat n) (drop (nat start) xs)"
    by (cases "start + n \<le> int (length xs)") (simp_all add: min_def)
  with assms True show ?thesis by (simp add: slice_def Let_def min_def)
next
  case False
  with assms show ?thesis by (simp add: slice_def Let_def min_def)
qed

lemma getListings_data:
  assumes "1 \<le> page'" "1 \<le> limit'"
  shows "data (getListings c f page' limit')
     = take (nat limit') (drop (nat ((page' - 1) * limit')) (applyFilters c f))"
proof -
  from assms have "0 \<le> (page' - 1) * limit'" "0 \<le> limit'" by simp_all
  from slice_page[OF this] show ?thesis by (simp add: getListings_def Let_def)
qed

lemma getListings_fields:
  "total (getListings c f page' limit') = int (length (applyFilters c f))"
  "page (getListings c f page' limit') = page'"
  "limit (getListings c f page' limit') = limit'"
  "hasMore (getListings c f page' limit') \<longleftrightarrow> page' * limit' < int (length (applyFilters c f))"
  by (simp_all add: getListings_def Let_def algebra_simps)

text \<open>
  Claim C3. For every catalog, every filters value and all integers page and limit that are
  at least 1, the response's data is the slice of the filtered list that starts at index
  \<open>(page - 1) * limit\<close> and has at most \<open>limit\<close> elements, total is the length of
  the filtered list, hasMore holds exactly when \<open>page * limit\<close> is less than total, and
  a page that starts at or after the end of the filtered list has empty data and hasMore
  false. The response repeats page and limit.
\<close>

theorem getListings_page:
  assumes "1 \<le> page'" and "1 \<le> limit'"
  shows "data (getListings c f page' limit')
           = take (nat limit') (drop (nat ((page' - 1) * limit')) (applyFilters c f))
         \<and> total (getListings c f page' limit') = int (length (applyFilters c f))
         \<and> (hasMore (getListings c f page' limit')
              \<longleftrightarrow> page' * limit' < total (getListings c f page' limit'))
         \<and> (total (getListings c f page' limit') \<le> (page' - 1) * limit'
              \<longrightarrow> data (getListings c f page' limit') = []
                  \<and> \<not> hasMore (getListings c f page' limit'))
         \<and> page (getListings c f page' limit') = page'
         \<and> limit (getListings c f page' limit') = limit'"
proof -
  let ?r = "getListings c f page' limit'"
  note d = getListings_data[OF assms, of c f]
  have past: "data ?r = [] \<and> \<not> hasMore ?r" if "total ?r \<le> (page' - 1) * limit'"
  proof -
    from that have "length (applyFilters c f) \<le> nat ((page' - 1) * limit')"
      by (simp add: getListings_fields)
    then have "data ?r = []" by (simp add: d)
    moreover from that assms have "\<not> page' * limit' < int (length (applyFilters c f))"
      by (simp add: getListings_fields algebra_simps)
    ultimately show ?thesis by (simp add: getListings_fields)
  qed
  from d past show ?thesis by (simp add: getListings_fields)
qed

lemma concat_chunks:
  "concat (map (\<lambda>p. take n (drop (p * n) xs)) [0..<N]) = take (N * n) xs"
proof (induction N)
  case 0
  then show ?case by simp
next
  case (Suc N)
  have "Suc N * n = N * n + n" by simp
  then have "take (Suc N * n) xs = take (N * n) xs @ take n (drop (N * n) xs)"
    by (simp only: take_add)
  with Suc show ?case by simp
qed

lemma pages_cover:
  assumes "1 \<le> limit'"
  shows "length xs \<le> nat \<lceil>real (length xs) / real_of_int limit'\<rceil> * nat limit'"
proof -
  from assms have pos: "0 < real_of_int limit'" by simp
  have "real (length xs) / real_of_int limit' \<le> of_int \<lceil>real (length xs) / real_of_int limit'\<rceil>"
    by (rule le_of_int_ceiling)
  with pos have "real (length xs) / real_of_int limit' * real_of_int limit'
      \<le> of_int \<lceil>real (length xs) / real_of_int limit'\<rceil> * real_of_int limit'"
    by (intro mult_right_mono) simp_all
  with pos have "real (length xs) \<le> of_int \<lceil>real (length xs) / real_of_int limit'\<rceil> * real_of_int limit'"
    by simp
  then have "int (length xs) \<le> \<lceil>real (length xs) / real_of_int limit'\<rceil> * limit'"
    by (metis of_int_le_iff of_int_mult of_int_of_nat_eq)
  moreover have "0 \<le> real (length xs) / real_of_int limit'"
    using pos by (intro divide_nonneg_pos) simp_all
  then have "0 \<le> \<lceil>real (length xs) / real_of_int limit'\<rceil>"
    unfolding zero_le_ceiling by linarith
  ultimately show ?thesis using assms
    by (simp add: nat_mult_distrib[symmetric] le_nat_iff)
qed

lemma categories: "category listing1 = Restaurant" "category listing2 = Event"
  "category listing3 = Cultural" "category listing4 = Restaurant"
  by (simp_all add: listing1_def listing2_def listing3_def listing4_def)

lemma restaurants:
  "applyFilters exampleCatalog (Some (noFilters\<lparr>filter_category := Some Restaurant\<rparr>))
     = [listing1, listing4]"
  by (simp add: applyFilters_def Let_def noFilters_def truthy_def exampleCatalog_def categories)

theorem getListings_page_witness:
  "(1::int) \<le> 1 \<and> (1::int) \<le> 10
   \<and> data (getListings exampleCatalog (Some (noFilters\<lparr>filter_category := Some Restaurant\<rparr>)) 1 10)
       = [listing1, listing4]
   \<and> total (getListings exampleCatalog (Some (noFilters\<lparr>filter_category := Some Restaurant\<rparr>)) 1 10) = 2
   \<and> \<not> hasMore (getListings exampleCatalog (Some (noFilters\<lparr>filter_category := Some Restaurant\<rparr>)) 1 10)
   \<and> data (getListings exampleCatalog (Some (noFilters\<lparr>filter_category := Some Restaurant\<rparr>)) 1 1)
       = [listing1]
   \<and> hasMore (getListings exampleCatalog (Some (noFilters\<lparr>filter_category := Some Restaurant\<rparr>)) 1 1)
   \<and> data (getListings exampleCatalog (Some (noFilters\<lparr>filter_category := Some Restaurant\<rparr>)) 3 1)
       = []
   \<and> \<not> hasMore (getListings exampleCatalog (Some (noFilters\<lparr>filter_category := Some Restaurant\<rparr>)) 3 1)"
proof -
  let ?f = "Some (noFilters\<lparr>filter_category := Some Restaurant\<rparr>)"
  have a: "(1::int) \<le> 1" and b: "(1::int) \<le> 10" and c: "(1::int) \<le> 3" by simp_all
  from getListings_page[OF a b, of exampleCatalog ?f]
  have p1: "data (getListings exampleCatalog ?f 1 10) = [listing1, listing4]"
    "total (getListings exampleCatalog ?f 1 10) = 2"
    "\<not> hasMore (getListings exampleCatalog ?f 1 10)"
    by (simp_all add: restaurants)
  from getListings_page[OF a a, of exampleCatalog ?f]
  have p2: "data (getListings exampleCatalog ?f 1 1) = [listing1]"
    "hasMore (getListings exampleCatalog ?f 1 1)"
    by (simp_all add: restaurants)
  from getListings_page[OF c a, of exampleCatalog ?f]
  have p3: "data (getListings exampleCatalog ?f 3 1) = []"
    "\<not> hasMore (getListings exampleCatalog ?f 3 1)"
    by (simp_all add: restaurants)
  from a b p1 p2 p3 show ?thesis by blast
qed

text \<open>
  Claim C8. For every catalog, every filters value and every integer limit that is at least
  1, the data arrays of pages 1 to N, where N is the ceiling of total divided by limit,
  concatenated in page order are the filtered list itself: every element once, at its
  position. The filtered list is the catalog filtered by one predicate, so it keeps the
  catalog's order.
\<close>

theorem getListings_pages_concat:
  assumes "1 \<le> limit'"
  shows "concat (map (\<lambda>p. data (getListings c f (int p) limit'))
             [1..<Suc (nat \<lceil>real_of_int (total (getListings c f 1 limit')) / real_of_int limit'\<rceil>)])
           = applyFilters c f
         \<and> applyFilters c f = filter (passes f) c"
proof -
  define xs where "xs = applyFilters c f"
  define n where "n = nat limit'"
  define N where "N = nat \<lceil>real (length xs) / real_of_int limit'\<rceil>"
  have page: "data (getListings c f (1 + int p) limit') = take n (drop (p * n) xs)" for p
  proof -
    have "1 \<le> 1 + int p" by simp
    from getListings_data[OF this assms, of c f]
    have "data (getListings c f (1 + int p) limit') = take n (drop (nat (int p * limit')) xs)"
      by (simp add: xs_def n_def)
    moreover from assms have "nat (int p * limit') = p * n"
      by (simp add: n_def nat_mult_distrib)
    ultimately show ?thesis by simp
  qed
  have "[1..<Suc N] = map Suc [0..<N]" by (simp add: map_Suc_upt)
  then have "concat (map (\<lambda>p. data (getListings c f (int p) limit')) [1..<Suc N])
      = concat (map (\<lambda>p. take n (drop (p * n) xs)) [0..<N])"
    by (simp add: comp_def page del: upt_Suc)
  also have "\<dots> = take (N * n) xs" by (rule concat_chunks)
  also have "\<dots> = xs"
    using pages_cover[OF assms, of xs] by (simp add: N_def n_def)
  finally have "concat (map (\<lambda>p. data (getListings c f (int p) limit')) [1..<Suc N]) = xs" .
  moreover have "real_of_int (total (getListings c f 1 limit')) = real (length xs)"
    by (simp add: getListings_fields xs_def)
  ultimately show ?thesis
    by (simp add: N_def xs_def applyFilters_filter[symmetric])
qed

theorem getListings_pages_concat_witness:
  "(1::int) \<le> 3
   \<and> nat \<lceil>real_of_int (total (getListings exampleCatalog None 1 3)) / real_of_int 3\<rceil> = 2
   \<and> data (getListings exampleCatalog None 1 3) = [listing1, listing2, listing3]
   \<and> data (getListings exampleCatalog None 2 3) = [listing4]
   \<and> concat (map (\<lambda>p. data (getListings exampleCatalog None (int p) 3)) [1..<Suc 2])
       = exampleCatalog"
proof -
  have a: "(1::int) \<le> 3" by simp
  have N: "nat \<lceil>real_of_int (total (getListings exampleCatalog None 1 3)) / real_of_int 3\<rceil> = 2"
    by (simp add: getListings_def Let_def applyFilters_def exampleCatalog_def)
  have p1: "data (getListings exampleCatalog None 1 3) = [listing1, listing2, listing3]"
    and p2: "data (getListings exampleCatalog None 2 3) = [listing4]"
    by (simp_all add: getListings_def Let_def applyFilters_def exampleCatalog_def slice_def)
  from getListings_pages_concat[OF a, of exampleCatalog None]
  have "concat (map (\<lambda>p. data (getListings exampleCatalog None (int p) 3)) [1..<Suc 2])
       = exampleCatalog"
    unfolding N by (simp add: applyFilters_def)
  with a N p1 p2 show ?thesis by blast
qed

text \<open>
  What the filter block guarantees: a returned listing is in the catalog, has the category
  asked for, meets each numeric bound whose value is present and not zero, and lies within
  the radius when a location is given.
\<close>

lemma getListings_sound:
  assumes "l \<in> set (data (getListings c (Some f) page' limit'))"
  shows "l \<in> set c"
    and "filter_category f = Some k \<Longrightarrow> category l = k"
    and "minPrice f = Some m \<Longrightarrow> m \<noteq> 0 \<Longrightarrow> m \<le> price l"
    and "maxPrice f = Some m \<Longrightarrow> m \<noteq> 0 \<Longrightarrow> price l \<le> m"
    and "minRating f = Some m \<Longrightarrow> m \<noteq> 0 \<Longrightarrow> m \<le> rating l"
    and "filter_location f = Some loc \<Longrightarrow>
           \<exists>d. calculateDistance (lat loc) (lng loc) (lat (location l)) (lng (location l)) = Some d
               \<and> d \<le> radius loc"
proof -
  have "set (slice xs a b) \<subseteq> set xs" for xs :: "Listing list" and a b
    unfolding slice_def Let_def by (meson order_trans set_drop_subset set_take_subset)
  with assms have "l \<in> set (applyFilters c (Some f))"
    by (auto simp: getListings_def Let_def)
  then have in_c: "l \<in> set c" and p: "passes (Some f) l"
    by (simp_all add: applyFilters_filter)
  from in_c show "l \<in> set c" .
  from p show "filter_category f = Some k \<Longrightarrow> category l = k"
    by (simp add: passes_def)
  from p show "minPrice f = Some m \<Longrightarrow> m \<noteq> 0 \<Longrightarrow> m \<le> price l"
    by (simp add: passes_def truthy_def)
  from p show "maxPrice f = Some m \<Longrightarrow> m \<noteq> 0 \<Longrightarrow> price l \<le> m"
    by (simp add: passes_def truthy_def)
  from p show "minRating f = Some m \<Longrightarrow> m \<noteq> 0 \<Longrightarrow> m \<le> rating l"
    by (simp add: passes_def truthy_def)
  from p show "filter_location f = Some loc \<Longrightarrow>
           \<exists>d. calculateDistance (lat loc) (lng loc) (lat (location l)) (lng (location l)) = Some d
               \<and> d \<le> radius loc"
    by (auto simp: passes_def withinRadius_def split: option.splits)
qed

text \<open>
  Claim C2 at a filter whose upper price bound is 0. The field is specified, the guard
  \<^verbatim>\<open>if (filters.maxPrice)\<close> reads the 0 as absent, and the listings priced 350, 200, 150
  and 120 are all returned.
\<close>

theorem getListings_maxPrice_zero:
  "data (getListings exampleCatalog (Some (noFilters\<lparr>maxPrice := Some 0\<rparr>)) 1 10)
     = [listing1, listing2, listing3, listing4]
   \<and> map price [listing1, listing2, listing3, listing4] = [350, 200, 150, 120]
   \<and> \<not> price listing1 \<le> 0"
  by (simp add: getListings_def Let_def applyFilters_def truthy_def noFilters_def slice_def
        exampleCatalog_def listing1_def listing2_def listing3_def listing4_def)

section \<open>Searching\<close>

lemma startsWith_iff: "startsWith s sub \<longleftrightarrow> (\<exists>suf. s = sub @ suf)"
  by (induction s sub rule: startsWith.induct) auto

lemma String_includes_iff: "String_includes s sub \<longleftrightarrow> (\<exists>pre suf. s = pre @ sub @ suf)"
proof (induction s)
  case Nil
  then show ?case by (auto simp: startsWith_iff)
next
  case (Cons x xs)
  show ?case
  proof
    assume "String_includes (x # xs) sub"
    then consider "startsWith (x # xs) sub" | "String_includes xs sub" by auto
    then show "\<exists>pre suf. x # xs = pre @ sub @ suf"
    proof cases
      case 1
      then obtain suf where "x # xs = sub @ suf" by (auto simp: startsWith_iff)
      then have "x # xs = [] @ sub @ suf" by simp
      then show ?thesis by blast
    next
      case 2
      with Cons.IH obtain pre suf where "xs = pre @ sub @ suf" by blast
      then have "x # xs = (x # pre) @ sub @ suf" by simp
      then show ?thesis by blast
    qed
  next
    assume "\<exists>pre suf. x # xs = pre @ sub @ suf"
    then obtain pre suf where e: "x # xs = pre @ sub @ suf" by blast
    show "String_includes (x # xs) sub"
    proof (cases pre)
      case Nil
      with e have "startsWith (x # xs) sub" by (auto simp: startsWith_iff)
      then show ?thesis by simp
    next
      case (Cons y ys)
      with e have "xs = ys @ sub @ suf" by simp
      with Cons.IH have "String_includes xs sub" by blast
      then show ?thesis by simp
    qed
  qed
qed

lemma String_includes_empty: "String_includes s []"
  by (induction s) simp_all

text \<open>
  Claim C4. Whatever case mapping \<open>toLowerCase\<close> is: a listing is in the result of
  \<open>searchListings\<close> exactly when it is in the catalog and the mapped query occurs as a
  contiguous run in the mapped title, localized title, description or localized
  description; the result is the catalog filtered, so in catalog order; two queries with
  the same image under the mapping, such as a query and a case variant of it, give the same
  result; and when the mapping sends the empty string to itself, the empty query returns
  the whole catalog.
\<close>

theorem searchListings_matches:
  "(l \<in> set (searchListings toLowerCase c q) \<longleftrightarrow>
      l \<in> set c \<and>
      ((\<exists>pre suf. toLowerCase (title l) = pre @ toLowerCase q @ suf)
       \<or> (\<exists>pre suf. toLowerCase (titleFr l) = pre @ toLowerCase q @ suf)
       \<or> (\<exists>pre suf. toLowerCase (description l) = pre @ toLowerCase q @ suf)
       \<or> (\<exists>pre suf. toLowerCase (descriptionFr l) = pre @ toLowerCase q @ suf)))
   \<and> searchListings toLowerCase c q
       = filter (\<lambda>l. l \<in> set (searchListings toLowerCase c q)) c
   \<and> (toLowerCase q = toLowerCase q' \<longrightarrow>
        searchListings toLowerCase c q = searchListings toLowerCase c q')
   \<and> (toLowerCase [] = [] \<longrightarrow> searchListings toLowerCase c [] = c)"
proof -
  have member: "l \<in> set (searchListings toLowerCase c q) \<longleftrightarrow>
      l \<in> set c \<and>
      ((\<exists>pre suf. toLowerCase (title l) = pre @ toLowerCase q @ suf)
       \<or> (\<exists>pre suf. toLowerCase (titleFr l) = pre @ toLowerCase q @ suf)
       \<or> (\<exists>pre suf. toLowerCase (description l) = pre @ toLowerCase q @ suf)
       \<or> (\<exists>pre suf. toLowerCase (descriptionFr l) = pre @ toLowerCase q @ suf))"
    by (simp add: searchListings_def Let_def String_includes_iff)
  have order: "searchListings toLowerCase c q
       = filter (\<lambda>l. l \<in> set (searchListings toLowerCase c q)) c"
    unfolding searchListings_def Let_def
    by (rule filter_cong) auto
  have variant: "toLowerCase q = toLowerCase q' \<longrightarrow>
        searchListings toLowerCase c q = searchListings toLowerCase c q'"
    by (simp add: searchListings_def Let_def)
  have empty: "toLowerCase [] = [] \<longrightarrow> searchListings toLowerCase c [] = c"
    by (simp add: searchListings_def Let_def String_includes_empty)
  from member order variant empty show ?thesis by blast
qed

theorem searchListings_matches_witness:
  "asciiLowerCase ''MOSQUE'' = asciiLowerCase ''mosque''
   \<and> searchListings asciiLowerCase exampleCatalog ''MOSQUE''
       = searchListings asciiLowerCase exampleCatalog ''mosque''
   \<and> searchListings asciiLowerCase exampleCatalog ''MOSQUE'' = [listing3]
   \<and> asciiLowerCase [] = []
   \<and> searchListings asciiLowerCase exampleCatalog [] = exampleCatalog"
proof -
  note T = searchListings_matches [of listing3 asciiLowerCase exampleCatalog "''MOSQUE''" "''mosque''"]
  have same: "asciiLowerCase ''MOSQUE'' = asciiLowerCase ''mosque''"
    by (simp add: asciiLowerCase_def)
  have nil: "asciiLowerCase [] = []"
    by (simp add: asciiLowerCase_def)
  have found: "searchListings asciiLowerCase exampleCatalog ''MOSQUE'' = [listing3]"
    by code_simp
  from T same have variant: "searchListings asciiLowerCase exampleCatalog ''MOSQUE''
       = searchListings asciiLowerCase exampleCatalog ''mosque''"
    by blast
  from T nil have all: "searchListings asciiLowerCase exampleCatalog [] = exampleCatalog"
    by blast
  from same variant found nil all show ?thesis by blast
qed

end
